theory Spec2Isabelle
  imports Main
begin

section \<open>JavaScript values, objects and the heap\<close>

text \<open>
  The plugin works on untyped JavaScript values: filters, pipelines, documents and
  argument lists are objects and arrays that are shared between the caller and the
  library and mutated in place. Objects and arrays therefore live in a heap and a value
  holds a reference to them. An object lists its integer-like property names first, in
  ascending order, and after them its other names in the order in which they were first
  set; this is the order in which \<open>for ... in\<close>, \<open>Object.keys\<close>, a spread and the
  database driver read an object.
\<close>

type_synonym addr = nat

datatype jsval =
    Undefined
  | Null
  | JBool bool
  | JNum int
  | JStr string
  | JFun string
  | Ref addr

type_synonym props = "(string \<times> jsval) list"

datatype cell =
    Obj props
  | Arr "jsval list" props

type_synonym heap = "cell list"

datatype error =
    TypeError
  | Dangling

text \<open>
  \<open>TypeError\<close> is the exception JavaScript raises on a property access on
  \<open>undefined\<close> or \<open>null\<close> and, in strict mode (a class body is strict), on a
  property write on a primitive. \<open>Dangling\<close> is not a JavaScript behaviour: it marks a
  reference that the heap does not hold, which no program can construct. A function is
  an object too, but the properties of functions are not tracked: a write on one
  succeeds and changes nothing the model holds.
\<close>

definition lookup :: "heap \<Rightarrow> addr \<Rightarrow> cell option" where
  "lookup h a = (if a < length h then Some (h ! a) else None)"

definition alloc :: "heap \<Rightarrow> cell \<Rightarrow> addr \<times> heap" where
  "alloc h c = (length h, h @ [c])"

definition store :: "heap \<Rightarrow> addr \<Rightarrow> cell \<Rightarrow> heap" where
  "store h a c = h[a := c]"

fun truthy :: "jsval \<Rightarrow> bool" where
  "truthy Undefined = False"
| "truthy Null = False"
| "truthy (JBool b) = b"
| "truthy (JNum n) = (n \<noteq> 0)"
| "truthy (JStr s) = (s \<noteq> [])"
| "truthy (JFun f) = True"
| "truthy (Ref a) = True"

fun is_function :: "jsval \<Rightarrow> bool" where
  "is_function (JFun f) = True"
| "is_function v = False"

text \<open>
  An integer-like property name (an array index): the canonical decimal form of a
  number from 0 to 4294967294.
\<close>

definition is_digit :: "char \<Rightarrow> bool" where
  "is_digit c = (48 \<le> (of_char c :: int) \<and> (of_char c :: int) \<le> 57)"

definition index_value :: "string \<Rightarrow> int" where
  "index_value k = foldl (\<lambda>a c. 10 * a + ((of_char c :: int) - 48)) 0 k"

definition is_index :: "string \<Rightarrow> bool" where
  "is_index k =
     (k \<noteq> [] \<and> list_all is_digit k \<and> (k = ''0'' \<or> hd k \<noteq> CHR ''0'') \<and>
      index_value k < 4294967295)"

text \<open>
  \<open>o[k] = v\<close> on own properties: an existing name keeps its place; a new integer-like
  name goes among the integer-like names, in ascending order; any other new name goes
  last. The same holds of every plain object the host uses as a dictionary.
\<close>

fun replace_value :: "(string \<times> 'a) list \<Rightarrow> string \<Rightarrow> 'a \<Rightarrow> (string \<times> 'a) list" where
  "replace_value [] k v = []"
| "replace_value ((k', v') # ps) k v =
     (if k' = k then (k, v) # ps else (k', v') # replace_value ps k v)"

fun insert_index :: "(string \<times> 'a) list \<Rightarrow> string \<Rightarrow> 'a \<Rightarrow> (string \<times> 'a) list" where
  "insert_index [] k v = [(k, v)]"
| "insert_index ((k', v') # ps) k v =
     (if is_index k' \<and> index_value k' < index_value k then (k', v') # insert_index ps k v
      else (k, v) # (k', v') # ps)"

definition obj_set :: "(string \<times> 'a) list \<Rightarrow> string \<Rightarrow> 'a \<Rightarrow> (string \<times> 'a) list" where
  "obj_set ps k v =
     (if k \<in> set (map fst ps) then replace_value ps k v
      else if is_index k then insert_index ps k v
      else ps @ [(k, v)])"

definition obj_get :: "props \<Rightarrow> string \<Rightarrow> jsval" where
  "obj_get ps k = (case map_of ps k of None \<Rightarrow> Undefined | Some v \<Rightarrow> v)"

text \<open>
  An integer-like name on an array is an element: a write past the end of the array
  extends it, and the elements it leaves out read as \<open>undefined\<close>.
\<close>

definition set_element :: "jsval list \<Rightarrow> nat \<Rightarrow> jsval \<Rightarrow> jsval list" where
  "set_element xs i v =
     (if i < length xs then xs[i := v]
      else xs @ replicate (i - length xs) Undefined @ [v])"

definition get_element :: "jsval list \<Rightarrow> nat \<Rightarrow> jsval" where
  "get_element xs i = (if i < length xs then xs ! i else Undefined)"

fun cell_set :: "cell \<Rightarrow> string \<Rightarrow> jsval \<Rightarrow> cell" where
  "cell_set (Obj ps) k v = Obj (obj_set ps k v)"
| "cell_set (Arr xs ps) k v =
     (if is_index k then Arr (set_element xs (nat (index_value k)) v) ps
      else Arr xs (obj_set ps k v))"

fun cell_get :: "cell \<Rightarrow> string \<Rightarrow> jsval" where
  "cell_get (Obj ps) k = obj_get ps k"
| "cell_get (Arr xs ps) k =
     (if is_index k then get_element xs (nat (index_value k)) else obj_get ps k)"

text \<open>\<open>target[k] = v\<close> for a value \<open>target\<close>, in strict mode.\<close>

definition set_property :: "heap \<Rightarrow> jsval \<Rightarrow> string \<Rightarrow> jsval \<Rightarrow> error + heap" where
  "set_property h target k v =
     (case target of
        Ref a \<Rightarrow>
          (case lookup h a of
             None \<Rightarrow> Inl Dangling
           | Some c \<Rightarrow> Inr (store h a (cell_set c k v)))
      | JFun f \<Rightarrow> Inr h
      | _ \<Rightarrow> Inl TypeError)"

section \<open>The methods of the bound class: delete operations\<close>

text \<open>
  A call that a method of the bound class hands on to its base
  (\<open>super.name(...args)\<close>): the name of the member of the base and the argument list.
\<close>

datatype base_call = BaseCall string "jsval list"

text \<open>
  \<open>deleteOne\<close>, \<open>deleteMany\<close> and \<open>remove\<close> share one body (lines 68 to 120). The
  first two arguments are the closure variable \<open>tenantIdKey\<close> and the value \<open>tId\<close>
  that \<open>this.getTenant()\<close> has returned. \<open>const [filter] = args\<close> reads \<open>undefined\<close>
  from an empty argument list.
\<close>

definition first_arg :: "jsval list \<Rightarrow> jsval" where
  "first_arg args = (case args of [] \<Rightarrow> Undefined | a # _ \<Rightarrow> a)"

definition scope_filter_args ::
  "string \<Rightarrow> jsval \<Rightarrow> heap \<Rightarrow> jsval list \<Rightarrow> error + (heap \<times> jsval list)" where
  "scope_filter_args tenantIdKey tId h args =
     (let filter = first_arg args in
      if \<not> truthy filter \<or> is_function filter then
        (let (a, h') = alloc h (Obj [(tenantIdKey, tId)]) in Inr (h', Ref a # args))
      else
        (case set_property h filter tenantIdKey tId of
           Inl e \<Rightarrow> Inl e
         | Inr h' \<Rightarrow> Inr (h', args)))"

definition deleteOne ::
  "string \<Rightarrow> jsval \<Rightarrow> heap \<Rightarrow> jsval list \<Rightarrow> error + (heap \<times> base_call)" where
  "deleteOne tenantIdKey tId h args =
     (case scope_filter_args tenantIdKey tId h args of
        Inl e \<Rightarrow> Inl e
      | Inr (h', args') \<Rightarrow> Inr (h', BaseCall ''deleteOne'' args'))"

definition deleteMany ::
  "string \<Rightarrow> jsval \<Rightarrow> heap \<Rightarrow> jsval list \<Rightarrow> error + (heap \<times> base_call)" where
  "deleteMany tenantIdKey tId h args =
     (case scope_filter_args tenantIdKey tId h args of
        Inl e \<Rightarrow> Inl e
      | Inr (h', args') \<Rightarrow> Inr (h', BaseCall ''deleteMany'' args'))"

definition remove_op ::
  "string \<Rightarrow> jsval \<Rightarrow> heap \<Rightarrow> jsval list \<Rightarrow> error + (heap \<times> base_call)" where
  "remove_op tenantIdKey tId h args =
     (case scope_filter_args tenantIdKey tId h args of
        Inl e \<Rightarrow> Inl e
      | Inr (h', args') \<Rightarrow> Inr (h', BaseCall ''remove'' args'))"

section \<open>The methods of the bound class: aggregation\<close>

text \<open>
  Reading a named property \<open>v.name\<close> and the first element \<open>v[0]\<close> of a value.
  A read on \<open>undefined\<close> or \<open>null\<close> raises; a read on another primitive finds
  nothing (the first character, for a string).
\<close>

definition get_member :: "heap \<Rightarrow> jsval \<Rightarrow> string \<Rightarrow> error + jsval" where
  "get_member h v k =
     (case v of
        Undefined \<Rightarrow> Inl TypeError
      | Null \<Rightarrow> Inl TypeError
      | Ref a \<Rightarrow>
          (case lookup h a of
             None \<Rightarrow> Inl Dangling
           | Some c \<Rightarrow> Inr (cell_get c k))
      | _ \<Rightarrow> Inr Undefined)"

definition get_first :: "heap \<Rightarrow> jsval \<Rightarrow> error + jsval" where
  "get_first h v =
     (case v of
        Undefined \<Rightarrow> Inl TypeError
      | Null \<Rightarrow> Inl TypeError
      | Ref a \<Rightarrow>
          (case lookup h a of
             None \<Rightarrow> Inl Dangling
           | Some c \<Rightarrow> Inr (cell_get c ''0''))
      | JStr s \<Rightarrow> Inr (case s of [] \<Rightarrow> Undefined | c # _ \<Rightarrow> JStr [c])
      | _ \<Rightarrow> Inr Undefined)"

text \<open>\<open>v.unshift(x)\<close>: only an array has the method.\<close>

definition unshift :: "heap \<Rightarrow> jsval \<Rightarrow> jsval \<Rightarrow> error + heap" where
  "unshift h v x =
     (case v of
        Ref a \<Rightarrow>
          (case lookup h a of
             None \<Rightarrow> Inl Dangling
           | Some (Obj ps) \<Rightarrow> Inl TypeError
           | Some (Arr xs ps) \<Rightarrow> Inr (store h a (Arr (x # xs) ps)))
      | _ \<Rightarrow> Inl TypeError)"

text \<open>\<open>args[0] = v\<close> on the rest-parameter array: an empty array grows by one.\<close>

definition set_first_arg :: "jsval list \<Rightarrow> jsval \<Rightarrow> jsval list" where
  "set_first_arg args v = (case args of [] \<Rightarrow> [v] | _ # rest \<Rightarrow> v # rest)"

text \<open>
  The stage literal \<open>{ $match: { [tenantIdKey]: tId } }\<close>: the inner object is
  allocated first, then the stage.
\<close>

definition new_match_stage :: "heap \<Rightarrow> string \<Rightarrow> jsval \<Rightarrow> addr \<times> heap" where
  "new_match_stage h tenantIdKey tId =
     (let (m, h1) = alloc h (Obj [(tenantIdKey, tId)])
      in alloc h1 (Obj [(''$match'', Ref m)]))"

text \<open>\<open>aggregate\<close> (lines 50 to 66).\<close>

definition aggregate ::
  "string \<Rightarrow> jsval \<Rightarrow> heap \<Rightarrow> jsval list \<Rightarrow> error + (heap \<times> base_call)" where
  "aggregate tenantIdKey tId h args =
     (let pipeline = first_arg args in
      if \<not> truthy pipeline then
        (let (s, h1) = new_match_stage h tenantIdKey tId;
             (p, h2) = alloc h1 (Arr [Ref s] [])
         in Inr (h2, BaseCall ''aggregate'' (set_first_arg args (Ref p))))
      else
        (case get_first h pipeline of
           Inl e \<Rightarrow> Inl e
         | Inr stage \<Rightarrow>
             (case get_member h stage ''$match'' of
                Inl e \<Rightarrow> Inl e
              | Inr m \<Rightarrow>
                  if truthy m then
                    (case set_property h m tenantIdKey tId of
                       Inl e \<Rightarrow> Inl e
                     | Inr h1 \<Rightarrow> Inr (h1, BaseCall ''aggregate'' args))
                  else
                    (let (s, h1) = new_match_stage h tenantIdKey tId in
                     case unshift h1 pipeline (Ref s) of
                       Inl e \<Rightarrow> Inl e
                     | Inr h2 \<Rightarrow> Inr (h2, BaseCall ''aggregate'' args)))))"

section \<open>Model classes\<close>

text \<open>
  A model class of the host is known by its \<open>modelName\<close> and may carry
  \<open>discriminators\<close>. Of the static properties that a class of the host may carry of
  its own (a schema can give its model any static), the hooks of the plugin read two:
  \<open>hasTenantContext\<close>, and \<open>getTenant\<close>, which is kept as the value it returns when
  it is a function.
\<close>

record class_statics =
  st_hasTenantContext :: jsval
  st_getTenant :: "jsval option"

text \<open>
  A tenant-bound class (\<open>class MongoTenantModel extends BaseModel\<close>, lines 43 to
  154) closes over the tenant identifier and the tenant field name. Every evaluation
  of the class expression makes a new class; the number it is given stands for its
  identity. The tenant-scoped connection handle (\<open>createTenantAwareDb\<close>) is not part
  of the model.
\<close>

datatype model =
    BaseModel string "(string \<times> model) list option" class_statics
  | MongoTenantModel nat model jsval string "(string \<times> model) list option"

text \<open>
  The members that the body of the class declares, each with its kind. None carries
  the keyword \<open>static\<close>: \<open>db\<close> and \<open>hasTenantContext\<close> are fields of the instances,
  the others are methods of the prototype.
\<close>

datatype member_kind =
    StaticMember
  | InstanceField
  | PrototypeMethod

definition MongoTenantModel_members :: "(string \<times> member_kind) list" where
  "MongoTenantModel_members =
     [(''db'', InstanceField),
      (''hasTenantContext'', InstanceField),
      (''getTenant'', PrototypeMethod),
      (''aggregate'', PrototypeMethod),
      (''deleteOne'', PrototypeMethod),
      (''deleteMany'', PrototypeMethod),
      (''remove'', PrototypeMethod),
      (''insertMany'', PrototypeMethod)]"

definition declares_static :: "string \<Rightarrow> bool" where
  "declares_static name = ((name, StaticMember) \<in> set MongoTenantModel_members)"

text \<open>
  The members of an instance of a class: the field \<open>hasTenantContext\<close> (line 45) and
  the value of \<open>getTenant()\<close> (lines 46 to 48). An instance of a class of the host
  has neither.
\<close>

fun hasTenantContext :: "model \<Rightarrow> jsval" where
  "hasTenantContext (BaseModel n ds st) = Undefined"
| "hasTenantContext (MongoTenantModel i b t k ds) = JBool True"

fun getTenant :: "model \<Rightarrow> jsval option" where
  "getTenant (BaseModel n ds st) = None"
| "getTenant (MongoTenantModel i b t k ds) = Some t"

text \<open>
  A property read on the class itself (\<open>this.model.hasTenantContext\<close>,
  \<open>this.constructor.getTenant\<close>, \<open>this.modelName\<close>): the class's own static if its
  body declares one, and otherwise what its base has, by inheritance and by the copy of
  the statics of the base (lines 356 to 366).
\<close>

fun static_hasTenantContext :: "model \<Rightarrow> jsval" where
  "static_hasTenantContext (BaseModel n ds st) = st_hasTenantContext st"
| "static_hasTenantContext (MongoTenantModel i b t k ds) =
     (if declares_static ''hasTenantContext'' then JBool True else static_hasTenantContext b)"

fun static_getTenant :: "model \<Rightarrow> jsval option" where
  "static_getTenant (BaseModel n ds st) = st_getTenant st"
| "static_getTenant (MongoTenantModel i b t k ds) =
     (if declares_static ''getTenant'' then Some t else static_getTenant b)"

fun modelName :: "model \<Rightarrow> string" where
  "modelName (BaseModel n ds st) = n"
| "modelName (MongoTenantModel i b t k ds) = modelName b"

fun discriminators :: "model \<Rightarrow> (string \<times> model) list option" where
  "discriminators (BaseModel n ds st) = ds"
| "discriminators (MongoTenantModel i b t k ds) = ds"

text \<open>
  The receiver \<open>this\<close> of a method: a class or an instance of a class.
  \<open>this.getTenant()\<close> raises when the receiver has no such function, and
  \<open>new this(doc)\<close> raises when the receiver is not a class.
\<close>

datatype receiver =
    Class model
  | Instance model

fun this_getTenant :: "receiver \<Rightarrow> error + jsval" where
  "this_getTenant (Class m) =
     (case static_getTenant m of None \<Rightarrow> Inl TypeError | Some t \<Rightarrow> Inr t)"
| "this_getTenant (Instance m) =
     (case getTenant m of None \<Rightarrow> Inl TypeError | Some t \<Rightarrow> Inr t)"

section \<open>The methods of the bound class: bulk insert\<close>

text \<open>
  A document that a model has materialised: the class it is an instance of and its
  data.
\<close>

datatype hydrated = Hydrated model jsval

fun data_of :: "hydrated \<Rightarrow> jsval" where
  "data_of (Hydrated m d) = d"

fun construct :: "receiver \<Rightarrow> hydrated \<Rightarrow> error + hydrated" where
  "construct (Class m) doc = Inr (Hydrated m (data_of doc))"
| "construct (Instance m) doc = Inl TypeError"

text \<open>\<open>res.map((doc) => new this(doc))\<close>: the first raising call ends the loop.\<close>

fun construct_all :: "receiver \<Rightarrow> hydrated list \<Rightarrow> error + hydrated list" where
  "construct_all self [] = Inr []"
| "construct_all self (d # ds) =
     (case construct self d of
        Inl e \<Rightarrow> Inl e
      | Inr x \<Rightarrow>
          (case construct_all self ds of
             Inl e \<Rightarrow> Inl e
           | Inr xs \<Rightarrow> Inr (x # xs)))"

text \<open>
  What a completion callback of the caller sees: it is not called, it is called with
  an error value and a list of documents, or the call raises.
\<close>

datatype completion =
    NotCalled
  | Called jsval jsval "hydrated list"
  | Raised error

definition call_callback :: "jsval \<Rightarrow> jsval \<Rightarrow> hydrated list \<Rightarrow> completion" where
  "call_callback cb err res = (if is_function cb then Called cb err res else Raised TypeError)"

text \<open>The arrow function that \<open>insertMany\<close> hands to its base (lines 144 to 151).\<close>

definition insertMany_callback ::
  "receiver \<Rightarrow> jsval \<Rightarrow> jsval \<Rightarrow> hydrated list \<Rightarrow> completion" where
  "insertMany_callback self cb err res =
     (if \<not> truthy cb then NotCalled
      else if truthy err then call_callback cb err res
      else
        (case construct_all self res of
           Inl e \<Rightarrow> Raised e
         | Inr docs \<Rightarrow> call_callback cb Null docs))"

text \<open>\<open>docs.forEach(doc => doc[key] = tId)\<close>; a raising write ends the loop.\<close>

fun set_each :: "heap \<Rightarrow> jsval list \<Rightarrow> string \<Rightarrow> jsval \<Rightarrow> error + heap" where
  "set_each h [] k v = Inr h"
| "set_each h (d # ds) k v =
     (case set_property h d k v of
        Inl e \<Rightarrow> Inl e
      | Inr h' \<Rightarrow> set_each h' ds k v)"

definition array_elements :: "heap \<Rightarrow> jsval \<Rightarrow> jsval list option" where
  "array_elements h v =
     (case v of
        Ref a \<Rightarrow> (case lookup h a of Some (Arr xs ps) \<Rightarrow> Some xs | _ \<Rightarrow> None)
      | _ \<Rightarrow> None)"

text \<open>
  The call \<open>super.insertMany(docs, callback)\<close>: the documents and the callback, which
  is a function of the error and the result of the base.
\<close>

datatype insert_call =
  BaseInsertMany jsval "jsval \<Rightarrow> hydrated list \<Rightarrow> completion"

fun insert_docs :: "insert_call \<Rightarrow> jsval" where
  "insert_docs (BaseInsertMany docs f) = docs"

text \<open>
  \<open>insertMany\<close> (lines 122 to 153). \<open>self\<close> is the receiver \<open>this\<close> and \<open>tId\<close> the
  value that \<open>this.getTenant()\<close> has returned; an argument the caller leaves out is
  \<open>Undefined\<close>.
\<close>

definition insertMany ::
  "receiver \<Rightarrow> string \<Rightarrow> jsval \<Rightarrow> heap \<Rightarrow> jsval \<Rightarrow> jsval \<Rightarrow> jsval \<Rightarrow>
     error + (heap \<times> insert_call)" where
  "insertMany self tenantIdKey tId h docs options callback =
     (let cb = (if is_function options then options else callback) in
      case (case array_elements h docs of
              None \<Rightarrow> set_property h docs tenantIdKey tId
            | Some ds \<Rightarrow> set_each h ds tenantIdKey tId) of
        Inl e \<Rightarrow> Inl e
      | Inr h' \<Rightarrow> Inr (h', BaseInsertMany docs (insertMany_callback self cb)))"

section \<open>Calling an operation on a model class\<close>

text \<open>
  A call \<open>C.name(...args)\<close> on a model class looks the member up on the class. When
  the body of the bound class declares a static of that name, that method runs with
  the class as its receiver. Otherwise the class has the member by inheritance from
  its base, and in the end from the host: the static of the host receives the
  arguments as the caller gave them, and nothing else happens.
\<close>

datatype 'a dispatch =
    ThroughOverride 'a
  | ToHostStatic string "jsval list"

definition arg :: "jsval list \<Rightarrow> nat \<Rightarrow> jsval" where
  "arg args i = (if i < length args then args ! i else Undefined)"

fun class_call ::
  "model \<Rightarrow> string \<Rightarrow> (receiver \<Rightarrow> string \<Rightarrow> jsval \<Rightarrow> heap \<Rightarrow> jsval list \<Rightarrow> error + (heap \<times> 'a)) \<Rightarrow>
     heap \<Rightarrow> jsval list \<Rightarrow> error + (heap \<times> 'a dispatch)" where
  "class_call (BaseModel n ds st) name body h args = Inr (h, ToHostStatic name args)"
| "class_call (MongoTenantModel i b t k ds) name body h args =
     (if declares_static name then
        (case this_getTenant (Class (MongoTenantModel i b t k ds)) of
           Inl e \<Rightarrow> Inl e
         | Inr tId \<Rightarrow>
             (case body (Class (MongoTenantModel i b t k ds)) k tId h args of
                Inl e \<Rightarrow> Inl e
              | Inr (h', c) \<Rightarrow> Inr (h', ThroughOverride c)))
      else class_call b name body h args)"

definition class_aggregate ::
  "model \<Rightarrow> heap \<Rightarrow> jsval list \<Rightarrow> error + (heap \<times> base_call dispatch)" where
  "class_aggregate m h args = class_call m ''aggregate'' (\<lambda>self. aggregate) h args"

definition class_deleteOne ::
  "model \<Rightarrow> heap \<Rightarrow> jsval list \<Rightarrow> error + (heap \<times> base_call dispatch)" where
  "class_deleteOne m h args = class_call m ''deleteOne'' (\<lambda>self. deleteOne) h args"

definition class_deleteMany ::
  "model \<Rightarrow> heap \<Rightarrow> jsval list \<Rightarrow> error + (heap \<times> base_call dispatch)" where
  "class_deleteMany m h args = class_call m ''deleteMany'' (\<lambda>self. deleteMany) h args"

definition class_remove ::
  "model \<Rightarrow> heap \<Rightarrow> jsval list \<Rightarrow> error + (heap \<times> base_call dispatch)" where
  "class_remove m h args = class_call m ''remove'' (\<lambda>self. remove_op) h args"

definition class_insertMany ::
  "model \<Rightarrow> heap \<Rightarrow> jsval list \<Rightarrow> error + (heap \<times> insert_call dispatch)" where
  "class_insertMany m h args =
     class_call m ''insertMany''
       (\<lambda>self key tId h' args'.
          insertMany self key tId h' (arg args' 0) (arg args' 1) (arg args' 2))
       h args"

section \<open>The schema of the host and the plugin\<close>

text \<open>
  The part of the host's schema the plugin touches: the paths with their options
  (\<open>schema.paths\<close>, \<open>path.options\<close>), the schema-level indexes (pairs of a key
  specification and options), the statics and the pre-hooks. A pre-hook maps the query
  or document it runs on to the one it leaves, and counts its calls of \<open>next\<close>, or it
  raises.
\<close>

record update_payload =
  u_top :: props
  u_set :: "props option"

record query =
  q_model :: model
  q_conditions :: props
  q_update :: update_payload

record document =
  d_constructor :: model
  d_fields :: props

datatype hook =
    QueryHook "query \<Rightarrow> error + (query \<times> nat)"
  | DocumentHook "document \<Rightarrow> error + (document \<times> nat)"

datatype static_member =
    AccessorFunction
  | MongoTenantGetter

record schema =
  s_paths :: "(string \<times> props) list"
  s_indexes :: "(props \<times> props) list"
  s_statics :: "(string \<times> static_member) list"
  s_pre :: "(string \<times> hook) list"

text \<open>
  The host's \<open>schema.add\<close>, \<open>schema.index\<close>, \<open>schema.static\<close> and \<open>schema.pre\<close>.
\<close>

definition schema_add :: "schema \<Rightarrow> string \<Rightarrow> props \<Rightarrow> schema" where
  "schema_add sch k opts = sch\<lparr>s_paths := obj_set (s_paths sch) k opts\<rparr>"

definition schema_index :: "schema \<Rightarrow> props \<Rightarrow> props \<Rightarrow> schema" where
  "schema_index sch spec opts = sch\<lparr>s_indexes := s_indexes sch @ [(spec, opts)]\<rparr>"

definition schema_static :: "schema \<Rightarrow> string \<Rightarrow> static_member \<Rightarrow> schema" where
  "schema_static sch name m = sch\<lparr>s_statics := obj_set (s_statics sch) name m\<rparr>"

definition schema_pre :: "schema \<Rightarrow> string \<Rightarrow> hook \<Rightarrow> schema" where
  "schema_pre sch name f = sch\<lparr>s_pre := s_pre sch @ [(name, f)]\<rparr>"

text \<open>
  The host's \<open>schema.indexes()\<close> lists an index for every path that declares one,
  in a pair built for that call, followed by the schema-level pairs themselves. A path
  declares an index through its \<open>unique\<close> or \<open>index\<close> option. The call gives every
  index whose options have no \<open>background\<close> entry the entry \<open>background: true\<close>, and
  it writes that entry into the option objects of the schema-level pairs, which are the
  schema's own. (The schema is taken not to belong to a discriminator, to whose indexes
  the call adds a filter expression as well.)
\<close>

definition add_background :: "props \<Rightarrow> props" where
  "add_background opts =
     (if ''background'' \<in> set (map fst opts) then opts
      else obj_set opts ''background'' (JBool True))"

definition path_index :: "string \<times> props \<Rightarrow> (props \<times> props) list" where
  "path_index p =
     (if truthy (obj_get (snd p) ''unique'') then
        [([(fst p, JNum 1)], add_background [(''unique'', JBool True)])]
      else if truthy (obj_get (snd p) ''index'') then [([(fst p, JNum 1)], add_background [])]
      else [])"

definition field_indexes :: "schema \<Rightarrow> (props \<times> props) list" where
  "field_indexes sch = concat (map path_index (s_paths sch))"

definition schema_indexes :: "schema \<Rightarrow> (props \<times> props) list \<times> schema" where
  "schema_indexes sch =
     (let sch' = sch\<lparr>s_indexes := map (\<lambda>index. (fst index, add_background (snd index)))
                                    (s_indexes sch)\<rparr>
      in (field_indexes sch' @ s_indexes sch', sch'))"

text \<open>The options of the plugin and the constructor's defaults (lines 172 to 183).\<close>

record options =
  enabled :: bool
  tenantIdKey :: string
  tenantIdType :: jsval
  accessorMethod :: string
  requireTenantId :: bool

record given_options =
  g_enabled :: "bool option"
  g_tenantIdKey :: "string option"
  g_tenantIdType :: "jsval option"
  g_accessorMethod :: "string option"
  g_requireTenantId :: "bool option"

definition default_to :: "'a \<Rightarrow> 'a option \<Rightarrow> 'a" where
  "default_to d v = (case v of None \<Rightarrow> d | Some x \<Rightarrow> x)"

text \<open>
  The cache \<open>_modelCache\<close>: model name to tenant string to bound class. \<open>created\<close>
  counts the classes that \<open>createBoundModel\<close> has made; the count names the next
  class.
\<close>

record mongo_tenant =
  schema :: schema
  plugin_options :: options
  modelCache :: "(string \<times> (string \<times> model) list) list"
  created :: nat

definition new_MongoTenant :: "schema \<Rightarrow> given_options \<Rightarrow> mongo_tenant" where
  "new_MongoTenant sch given =
     \<lparr> schema = sch,
       plugin_options =
         \<lparr> enabled = default_to True (g_enabled given),
           tenantIdKey = default_to ''tenant'' (g_tenantIdKey given),
           tenantIdType = default_to (JFun ''String'') (g_tenantIdType given),
           accessorMethod = default_to ''byTenant'' (g_accessorMethod given),
           requireTenantId = default_to False (g_requireTenantId given) \<rparr>,
       modelCache = [],
       created = 0 \<rparr>"

definition isEnabled :: "mongo_tenant \<Rightarrow> bool" where
  "isEnabled mt = enabled (plugin_options mt)"

definition getTenantIdKey :: "mongo_tenant \<Rightarrow> string" where
  "getTenantIdKey mt = tenantIdKey (plugin_options mt)"

definition getTenantIdType :: "mongo_tenant \<Rightarrow> jsval" where
  "getTenantIdType mt = tenantIdType (plugin_options mt)"

definition getAccessorMethod :: "mongo_tenant \<Rightarrow> string" where
  "getAccessorMethod mt = accessorMethod (plugin_options mt)"

definition isTenantIdRequired :: "mongo_tenant \<Rightarrow> bool" where
  "isTenantIdRequired mt = requireTenantId (plugin_options mt)"

section \<open>Compatibility of plugins\<close>

text \<open>
  The argument of \<open>isCompatibleTo\<close> is any value: \<open>None\<close> stands for a falsy one.
  Of a truthy value the check looks at two members only: whether
  \<open>getAccessorMethod\<close> is a function, and whether \<open>getTenantIdKey\<close> is a function
  and what it returns.
\<close>

record plugin_value =
  member_getAccessorMethod :: "string option"
  member_getTenantIdKey :: "jsval option"

definition isCompatibleTo :: "mongo_tenant \<Rightarrow> plugin_value option \<Rightarrow> bool" where
  "isCompatibleTo mt plugin =
     (case plugin of
        None \<Rightarrow> False
      | Some p \<Rightarrow>
          (case member_getAccessorMethod p of
             None \<Rightarrow> False
           | Some a \<Rightarrow>
               (case member_getTenantIdKey p of
                  None \<Rightarrow> False
                | Some key \<Rightarrow> JStr (getTenantIdKey mt) = key)))"

text \<open>A plugin instance, passed as the argument.\<close>

definition as_value :: "mongo_tenant \<Rightarrow> plugin_value" where
  "as_value mt =
     \<lparr> member_getAccessorMethod = Some (getAccessorMethod mt),
       member_getTenantIdKey = Some (JStr (getTenantIdKey mt)) \<rparr>"

section \<open>Setting up the schema\<close>

text \<open>\<open>extendSchema\<close> (lines 259 to 269).\<close>

definition extendSchema :: "mongo_tenant \<Rightarrow> mongo_tenant" where
  "extendSchema mt =
     (if \<not> isEnabled mt then mt
      else mt\<lparr>schema := schema_add (schema mt) (getTenantIdKey mt)
             [(''index'', JBool True),
              (''type'', getTenantIdType mt),
              (''required'', JBool (isTenantIdRequired mt))]\<rparr>)"

text \<open>
  \<open>compoundIndexes\<close> (lines 275 to 304). The key specification of a tenant-aware
  index starts as \<open>{[tenantIdKey]: 1}\<close> and receives the fields of the index in the
  order in which \<open>for ... in\<close> lists them.
\<close>

definition tenantAwareIndex :: "string \<Rightarrow> props \<Rightarrow> props" where
  "tenantAwareIndex key spec = foldl (\<lambda>acc (f, v). obj_set acc f v) [(key, JNum 1)] spec"

definition opted_out :: "props \<Rightarrow> bool" where
  "opted_out opts =
     (obj_get opts ''unique'' \<noteq> JBool True \<or> obj_get opts ''preserveUniqueKey'' = JBool True)"

definition rewrite_index :: "string \<Rightarrow> props \<times> props \<Rightarrow> props \<times> props" where
  "rewrite_index key index =
     (if opted_out (snd index) then index
      else (tenantAwareIndex key (fst index), snd index))"

text \<open>
  The first loop runs over the list that \<open>schema.indexes()\<close> returns and assigns to
  \<open>index[0]\<close>. The pairs of the field-level indexes were built for the call and are
  dropped with the list; the pairs behind them are the schema's own.
\<close>

definition rewrite_schema_indexes :: "string \<Rightarrow> schema \<Rightarrow> schema" where
  "rewrite_schema_indexes key sch =
     (let (indexes, sch') = schema_indexes sch
      in sch'\<lparr>s_indexes :=
               drop (length (field_indexes sch')) (map (rewrite_index key) indexes)\<rparr>)"

definition compound_path :: "string \<Rightarrow> schema \<Rightarrow> string \<times> props \<Rightarrow> schema" where
  "compound_path key sch p =
     (if opted_out (snd p) then sch
      else schema_index sch
             (obj_set [(key, JNum 1)] (fst p) (JNum 1))
             (obj_set (snd p) ''unique'' (JBool True)))"

definition compoundIndexes :: "mongo_tenant \<Rightarrow> mongo_tenant" where
  "compoundIndexes mt =
     (if \<not> isEnabled mt then mt
      else
        (let sch1 = rewrite_schema_indexes (getTenantIdKey mt) (schema mt)
         in mt\<lparr>schema := foldl (compound_path (getTenantIdKey mt)) sch1 (s_paths sch1)\<rparr>))"

section \<open>The accessor and the cache of bound models\<close>

text \<open>
  \<open>createTenantAwareModel\<close> (lines 349 to 378): the class is made first, then a bound
  class for every discriminator of the base. The last argument and the second result
  are the count of classes made.
\<close>

fun createTenantAwareModel :: "string \<Rightarrow> model \<Rightarrow> jsval \<Rightarrow> nat \<Rightarrow> model \<times> nat"
  and bind_discriminators ::
    "string \<Rightarrow> (string \<times> model) list \<Rightarrow> jsval \<Rightarrow> nat \<Rightarrow> (string \<times> model) list \<times> nat"
where
  "createTenantAwareModel key (BaseModel name None st) tid n =
     (MongoTenantModel n (BaseModel name None st) tid key None, Suc n)"
| "createTenantAwareModel key (BaseModel name (Some ds) st) tid n =
     (let (ds', n') = bind_discriminators key ds tid (Suc n)
      in (MongoTenantModel n (BaseModel name (Some ds) st) tid key (Some ds'), n'))"
| "createTenantAwareModel key (MongoTenantModel i b t k None) tid n =
     (MongoTenantModel n (MongoTenantModel i b t k None) tid key None, Suc n)"
| "createTenantAwareModel key (MongoTenantModel i b t k (Some ds)) tid n =
     (let (ds', n') = bind_discriminators key ds tid (Suc n)
      in (MongoTenantModel n (MongoTenantModel i b t k (Some ds)) tid key (Some ds'), n'))"
| "bind_discriminators key [] tid n = ([], n)"
| "bind_discriminators key ((name, m) # rest) tid n =
     (let (m', n1) = createTenantAwareModel key m tid n;
          (rest', n2) = bind_discriminators key rest tid n1
      in ((name, m') # rest', n2))"

text \<open>
  A property read \<open>cachedModels[strTenantId]\<close> on the plain object that holds the
  cached classes finds an own entry or, failing that, a property that every plain
  object inherits; all of these are truthy. The names of the models, which key the
  outer object, are taken not to be such names.
\<close>

definition inherited_property :: "string \<Rightarrow> bool" where
  "inherited_property k =
     (k \<in> set [''constructor'', ''__proto__'', ''hasOwnProperty'', ''isPrototypeOf'',
               ''propertyIsEnumerable'', ''toLocaleString'', ''toString'', ''valueOf'',
               ''__defineGetter__'', ''__defineSetter__'', ''__lookupGetter__'',
               ''__lookupSetter__''])"

datatype accessor_result =
    ReturnsModel model
  | ReturnsInherited string

definition cache_entry :: "(string \<times> model) list \<Rightarrow> string \<Rightarrow> accessor_result option" where
  "cache_entry cachedModels str =
     (case map_of cachedModels str of
        Some m \<Rightarrow> Some (ReturnsModel m)
      | None \<Rightarrow> if inherited_property str then Some (ReturnsInherited str) else None)"

text \<open>
  The static that \<open>injectApi\<close> installs (lines 317 to 330). \<open>self\<close> is its receiver.
  The string form \<open>String(tenantId)\<close> is the work of the language and is given with
  the identifier, as the last argument.
\<close>

definition accessor ::
  "mongo_tenant \<Rightarrow> model \<Rightarrow> jsval \<Rightarrow> string \<Rightarrow> accessor_result \<times> mongo_tenant" where
  "accessor mt self tenantId strTenantId =
     (if \<not> isEnabled mt then (ReturnsModel self, mt)
      else
        (let cache1 =
               (if map_of (modelCache mt) (modelName self) = None
                then obj_set (modelCache mt) (modelName self) []
                else modelCache mt);
             cachedModels = default_to [] (map_of cache1 (modelName self))
         in case cache_entry cachedModels strTenantId of
              Some r \<Rightarrow> (r, mt\<lparr>modelCache := cache1\<rparr>)
            | None \<Rightarrow>
                (let (m, n) = createTenantAwareModel (getTenantIdKey mt) self tenantId (created mt)
                 in (ReturnsModel m,
                     mt\<lparr>modelCache :=
                          obj_set cache1 (modelName self) (obj_set cachedModels strTenantId m),
                        created := n\<rparr>))))"

definition injectApi :: "mongo_tenant \<Rightarrow> mongo_tenant" where
  "injectApi mt =
     mt\<lparr>schema :=
        schema_static (schema_static (schema mt) (getAccessorMethod mt) AccessorFunction)
          ''mongoTenant'' MongoTenantGetter\<rparr>"

section \<open>The middleware\<close>

text \<open>
  The host's \<open>Query.set(path, value)\<close>, which puts the value under \<open>$set\<close> of the
  update and removes a top-level entry of the same path, and \<open>Document.set\<close>.
\<close>

definition query_set :: "query \<Rightarrow> string \<Rightarrow> jsval \<Rightarrow> query" where
  "query_set q path v =
     q\<lparr>q_update :=
        \<lparr> u_top = filter (\<lambda>p. fst p \<noteq> path) (u_top (q_update q)),
          u_set = Some (obj_set (default_to [] (u_set (q_update q))) path v) \<rparr>\<rparr>"

definition document_set :: "document \<Rightarrow> string \<Rightarrow> jsval \<Rightarrow> document" where
  "document_set d path v = d\<lparr>d_fields := obj_set (d_fields d) path v\<rparr>"

text \<open>
  The call \<open>model.getTenant!()\<close> on a model class: it raises when the class has no
  function of that name.
\<close>

definition call_getTenant :: "model \<Rightarrow> error + jsval" where
  "call_getTenant m = this_getTenant (Class m)"

text \<open>
  The three hook functions of \<open>installMiddleWare\<close> (lines 405 to 433). The model
  they ask is the class: \<open>this.model\<close> of a query, \<open>this.constructor\<close> of a document.
\<close>

definition preFindOrCount :: "string \<Rightarrow> query \<Rightarrow> error + (query \<times> nat)" where
  "preFindOrCount key q =
     (if truthy (static_hasTenantContext (q_model q)) then
        (case call_getTenant (q_model q) of
           Inl e \<Rightarrow> Inl e
         | Inr tenantId \<Rightarrow> Inr (q\<lparr>q_conditions := obj_set (q_conditions q) key tenantId\<rparr>, 1))
      else Inr (q, 1))"

definition preUpdate :: "string \<Rightarrow> query \<Rightarrow> error + (query \<times> nat)" where
  "preUpdate key q =
     (if truthy (static_hasTenantContext (q_model q)) then
        (case call_getTenant (q_model q) of
           Inl e \<Rightarrow> Inl e
         | Inr tenantId \<Rightarrow>
             Inr (query_set (q\<lparr>q_conditions := obj_set (q_conditions q) key tenantId\<rparr>)
                    key tenantId, 1))
      else Inr (q, 1))"

definition preSave :: "string \<Rightarrow> document \<Rightarrow> error + (document \<times> nat)" where
  "preSave key d =
     (if truthy (static_hasTenantContext (d_constructor d)) then
        (case call_getTenant (d_constructor d) of
           Inl e \<Rightarrow> Inl e
         | Inr tenantId \<Rightarrow> Inr (document_set d key tenantId, 1))
      else Inr (d, 1))"

definition installMiddleWare :: "mongo_tenant \<Rightarrow> mongo_tenant" where
  "installMiddleWare mt =
     (let key = getTenantIdKey mt;
          s1 = schema_pre (schema mt) ''find'' (QueryHook (preFindOrCount key));
          s2 = schema_pre s1 ''findOne'' (QueryHook (preFindOrCount key));
          s3 = schema_pre s2 ''findOneAndRemove'' (QueryHook (preFindOrCount key));
          s4 = schema_pre s3 ''count'' (QueryHook (preFindOrCount key));
          s5 = schema_pre s4 ''countDocuments'' (QueryHook (preFindOrCount key));
          s6 = schema_pre s5 ''findOneAndUpdate'' (QueryHook (preUpdate key));
          s7 = schema_pre s6 ''update'' (QueryHook (preUpdate key));
          s8 = schema_pre s7 ''updateMany'' (QueryHook (preUpdate key));
          s9 = schema_pre s8 ''save'' (DocumentHook (preSave key))
      in mt\<lparr>schema := s9\<rparr>)"

text \<open>\<open>apply\<close> (line 190) and the plugin function (lines 445 to 448).\<close>

definition apply_plugin :: "mongo_tenant \<Rightarrow> mongo_tenant" where
  "apply_plugin mt = installMiddleWare (injectApi (compoundIndexes (extendSchema mt)))"

definition mongoTenantPlugin :: "schema \<Rightarrow> given_options \<Rightarrow> mongo_tenant" where
  "mongoTenantPlugin sch given = apply_plugin (new_MongoTenant sch given)"

section \<open>Unique indexes in the store\<close>

text \<open>
  What a unique index means to the database: a document is refused when a stored
  document has the same value in every field of the key specification of an index that
  is marked unique. An absent field reads as \<open>undefined\<close> on both sides.
\<close>

definition agree_on :: "props \<Rightarrow> props \<Rightarrow> props \<Rightarrow> bool" where
  "agree_on spec d e = list_all (\<lambda>f. obj_get d f = obj_get e f) (map fst spec)"

definition refused_by :: "props \<times> props \<Rightarrow> props list \<Rightarrow> props \<Rightarrow> bool" where
  "refused_by index stored d =
     (obj_get (snd index) ''unique'' = JBool True \<and> list_ex (agree_on (fst index) d) stored)"

definition save_accepted :: "(props \<times> props) list \<Rightarrow> props list \<Rightarrow> props \<Rightarrow> bool" where
  "save_accepted indexes stored d = (\<not> list_ex (\<lambda>index. refused_by index stored d) indexes)"

section \<open>Reading and writing through a model\<close>

text \<open>
  The store behind a model is a list of documents. The operations of the host are taken
  with these meanings. A filter matches a document when every field of the filter has
  its value in the document (filters of field equalities; operators are not
  interpreted). \<open>find\<close> returns the matching documents. \<open>save\<close> of a new document and
  \<open>insertMany\<close> append to the store.
\<close>

type_synonym collection = "props list"

definition matches :: "props \<Rightarrow> props \<Rightarrow> bool" where
  "matches flt d = list_all (\<lambda>p. obj_get d (fst p) = snd p) flt"

definition base_find :: "query \<Rightarrow> collection \<Rightarrow> collection" where
  "base_find q coll = filter (matches (q_conditions q)) coll"

definition base_save :: "document \<Rightarrow> collection \<Rightarrow> collection" where
  "base_save d coll = coll @ [d_fields d]"

text \<open>The documents that \<open>insertMany\<close> of the host reads from its first argument.\<close>

definition doc_fields :: "heap \<Rightarrow> jsval \<Rightarrow> props option" where
  "doc_fields h v =
     (case v of
        Ref a \<Rightarrow> (case lookup h a of Some (Obj ps) \<Rightarrow> Some ps | _ \<Rightarrow> None)
      | _ \<Rightarrow> None)"

definition stored_docs :: "heap \<Rightarrow> jsval \<Rightarrow> props list option" where
  "stored_docs h v =
     (case array_elements h v of
        Some ds \<Rightarrow> those (map (doc_fields h) ds)
      | None \<Rightarrow> map_option (\<lambda>d. [d]) (doc_fields h v))"

text \<open>
  An operation through a model class: the host runs the pre-hook that the plugin
  registers for the operation, with the class as the model of the query or the
  constructor of the document, and then the operation itself; \<open>insertMany\<close> is the
  call on the class. A write that raises leaves the store as it is.
\<close>

definition empty_update :: update_payload where
  "empty_update = \<lparr> u_top = [], u_set = None \<rparr>"

definition find_through :: "string \<Rightarrow> model \<Rightarrow> props \<Rightarrow> collection \<Rightarrow> error + collection" where
  "find_through key m cond coll =
     (case preFindOrCount key \<lparr> q_model = m, q_conditions = cond, q_update = empty_update \<rparr> of
        Inl e \<Rightarrow> Inl e
      | Inr (q, n) \<Rightarrow> Inr (base_find q coll))"

definition save_through :: "string \<Rightarrow> model \<Rightarrow> props \<Rightarrow> collection \<Rightarrow> error + collection" where
  "save_through key m d coll =
     (case preSave key \<lparr> d_constructor = m, d_fields = d \<rparr> of
        Inl e \<Rightarrow> Inl e
      | Inr (d', n) \<Rightarrow> Inr (base_save d' coll))"

definition insertMany_through ::
  "model \<Rightarrow> heap \<Rightarrow> jsval list \<Rightarrow> collection \<Rightarrow> error + collection" where
  "insertMany_through m h args coll =
     (case class_insertMany m h args of
        Inl e \<Rightarrow> Inl e
      | Inr (h', ThroughOverride call) \<Rightarrow>
          Inr (coll @ default_to [] (stored_docs h' (insert_docs call)))
      | Inr (h', ToHostStatic name args') \<Rightarrow>
          Inr (coll @ default_to [] (stored_docs h' (first_arg args'))))"

section \<open>Example schemas\<close>


definition users_schema :: schema where
  "users_schema =
     \<lparr> s_paths = [(''email'', [(''type'', JFun ''String''), (''unique'', JBool True)])],
       s_indexes = [],
       s_statics = [],
       s_pre = [] \<rparr>"


definition no_options :: given_options where
  "no_options =
     \<lparr> g_enabled = None, g_tenantIdKey = None, g_tenantIdType = None,
       g_accessorMethod = None, g_requireTenantId = None \<rparr>"

definition no_statics :: class_statics where
  "no_statics = \<lparr> st_hasTenantContext = Undefined, st_getTenant = None \<rparr>"

definition User :: model where
  "User = BaseModel ''User'' None no_statics"

definition bound_user :: "nat \<Rightarrow> jsval \<Rightarrow> model" where
  "bound_user i t = MongoTenantModel i User t ''tenant'' None"

text \<open>
  A model class of the host to which a static \<open>hasTenantContext\<close> and a static
  \<open>getTenant\<close> have been given by hand.
\<close>

definition flagged_user :: "jsval \<Rightarrow> model" where
  "flagged_user t =
     BaseModel ''User'' None \<lparr> st_hasTenantContext = JBool True, st_getTenant = Some t \<rparr>"

section \<open>Properties of objects\<close>

lemma map_of_replace_value_at:
  "k \<in> set (map fst ps) \<Longrightarrow>
   map_of (replace_value ps k v) x = (if x = k then Some v else map_of ps x)"
proof (induction ps)
  case Nil
  then show ?case by simp
next
  case (Cons p ps)
  obtain k' v' where p: "p = (k', v')" by (cases p)
  show ?case
  proof (cases "k' = k")
    case True
    then show ?thesis using p by simp
  next
    case False
    then have "k \<in> set (map fst ps)"
      using Cons.prems p by auto
    from Cons.IH [OF this] show ?thesis
      using False p by (cases "x = k") simp_all
  qed
qed

lemma map_of_replace_value:
  "k \<in> set (map fst ps) \<Longrightarrow> map_of (replace_value ps k v) = (map_of ps)(k \<mapsto> v)"
  by (rule ext) (simp add: map_of_replace_value_at)

lemma map_of_insert_index:
  "k \<notin> set (map fst ps) \<Longrightarrow> map_of (insert_index ps k v) = (map_of ps)(k \<mapsto> v)"
proof (induction ps)
  case Nil
  then show ?case by simp
next
  case (Cons p ps)
  obtain k' v' where p: "p = (k', v')" by (cases p)
  have ne: "k' \<noteq> k" and nin: "k \<notin> set (map fst ps)"
    using Cons.prems p by auto
  show ?case
    using Cons.IH [OF nin] ne p by (auto simp: fun_eq_iff)
qed

lemma map_of_append_new:
  "k \<notin> set (map fst ps) \<Longrightarrow> map_of (ps @ [(k, v)]) = (map_of ps)(k \<mapsto> v)"
  by (induction ps) (auto simp: fun_eq_iff)

lemma map_of_obj_set: "map_of (obj_set ps k v) = (map_of ps)(k \<mapsto> v)"
  unfolding obj_set_def
  by (simp add: map_of_replace_value map_of_insert_index map_of_append_new
      del: set_map map_of_append)

lemma obj_get_obj_set_same: "obj_get (obj_set ps k v) k = v"
  by (simp add: obj_get_def map_of_obj_set)

lemma obj_get_obj_set_other: "k' \<noteq> k \<Longrightarrow> obj_get (obj_set ps k v) k' = obj_get ps k'"
  by (simp add: obj_get_def map_of_obj_set)

lemma keys_replace_value: "map fst (replace_value ps k v) = map fst ps"
  by (induction ps) auto

lemma set_keys_insert_index: "set (map fst (insert_index ps k v)) = insert k (set (map fst ps))"
proof (induction ps)
  case Nil
  then show ?case by simp
next
  case (Cons p ps)
  obtain k' v' where p: "p = (k', v')" by (cases p)
  show ?case
    using Cons.IH p by (cases "is_index k' \<and> index_value k' < index_value k") auto
qed

lemma set_keys_obj_set: "set (map fst (obj_set ps k v)) = insert k (set (map fst ps))"
  unfolding obj_set_def
  by (auto simp: keys_replace_value set_keys_insert_index simp del: set_map)







lemma default_to_simps:
  "default_to d None = d"
  "default_to d (Some x) = x"
  by (simp_all add: default_to_def)

section \<open>Properties of the classes\<close>

lemma declares_static_never: "declares_static name = False"
  by (simp add: declares_static_def MongoTenantModel_members_def)

lemma class_call_host:
  "class_call m name body h args = Inr (h, ToHostStatic name args)"
  by (induction m name body h args rule: class_call.induct)
    (simp_all add: declares_static_never)

lemma static_hasTenantContext_bound:
  "static_hasTenantContext (MongoTenantModel i b t k ds) = static_hasTenantContext b"
  by (simp add: declares_static_never)

lemma static_getTenant_bound:
  "static_getTenant (MongoTenantModel i b t k ds) = static_getTenant b"
  by (simp add: declares_static_never)


lemma createTenantAwareModel_bound:
  "\<exists>ds. fst (createTenantAwareModel key b tid n) = MongoTenantModel n b tid key ds"
  by (cases "(key, b, tid, n)" rule: createTenantAwareModel.cases) (auto split: prod.splits)

section \<open>Properties of the middleware\<close>

lemma s_pre_installMiddleWare:
  "s_pre (schema (installMiddleWare mt)) =
     s_pre (schema mt) @
       [(''find'', QueryHook (preFindOrCount (getTenantIdKey mt))),
        (''findOne'', QueryHook (preFindOrCount (getTenantIdKey mt))),
        (''findOneAndRemove'', QueryHook (preFindOrCount (getTenantIdKey mt))),
        (''count'', QueryHook (preFindOrCount (getTenantIdKey mt))),
        (''countDocuments'', QueryHook (preFindOrCount (getTenantIdKey mt))),
        (''findOneAndUpdate'', QueryHook (preUpdate (getTenantIdKey mt))),
        (''update'', QueryHook (preUpdate (getTenantIdKey mt))),
        (''updateMany'', QueryHook (preUpdate (getTenantIdKey mt))),
        (''save'', DocumentHook (preSave (getTenantIdKey mt)))]"
  by (simp add: installMiddleWare_def schema_pre_def Let_def)

section \<open>Properties of the index setup\<close>

lemma is_index_background: "is_index ''background'' = False"
  by (simp add: is_index_def is_digit_def)



lemma add_background_twice: "add_background (add_background opts) = add_background opts"
  by (simp add: add_background_def set_keys_obj_set del: set_map)

lemma field_indexes_paths: "s_paths sch' = s_paths sch \<Longrightarrow> field_indexes sch' = field_indexes sch"
  by (simp add: field_indexes_def)

lemma schema_indexes_simps:
  "fst (schema_indexes sch) =
     field_indexes sch @ map (\<lambda>index. (fst index, add_background (snd index))) (s_indexes sch)"
  "snd (schema_indexes sch) =
     sch\<lparr>s_indexes := map (\<lambda>index. (fst index, add_background (snd index))) (s_indexes sch)\<rparr>"
  by (simp_all add: schema_indexes_def Let_def field_indexes_def)

lemma rewrite_schema_indexes_simps:
  "s_indexes (rewrite_schema_indexes key sch) =
     map (\<lambda>index. rewrite_index key (fst index, add_background (snd index))) (s_indexes sch)"
  "s_paths (rewrite_schema_indexes key sch) = s_paths sch"
  "s_pre (rewrite_schema_indexes key sch) = s_pre sch"
  "s_statics (rewrite_schema_indexes key sch) = s_statics sch"
  by (simp_all add: rewrite_schema_indexes_def split_def schema_indexes_simps field_indexes_def
      comp_def)

lemma foldl_compound_path:
  "s_indexes (foldl (compound_path key) sch ps) =
     s_indexes sch @
       concat (map (\<lambda>p. if opted_out (snd p) then []
                         else [(obj_set [(key, JNum 1)] (fst p) (JNum 1),
                                obj_set (snd p) ''unique'' (JBool True))]) ps) \<and>
   s_paths (foldl (compound_path key) sch ps) = s_paths sch \<and>
   s_pre (foldl (compound_path key) sch ps) = s_pre sch \<and>
   s_statics (foldl (compound_path key) sch ps) = s_statics sch"
  by (induction ps arbitrary: sch) (auto simp: compound_path_def schema_index_def)


lemma s_pre_compoundIndexes: "s_pre (schema (compoundIndexes mt)) = s_pre (schema mt)"
  by (simp add: compoundIndexes_def Let_def foldl_compound_path rewrite_schema_indexes_simps)

lemma extendSchema_simps:
  "s_indexes (schema (extendSchema mt)) = s_indexes (schema mt)"
  "s_pre (schema (extendSchema mt)) = s_pre (schema mt)"
  "isEnabled (extendSchema mt) = isEnabled mt"
  "getTenantIdKey (extendSchema mt) = getTenantIdKey mt"
  by (simp_all add: extendSchema_def schema_add_def isEnabled_def getTenantIdKey_def)

lemma compoundIndexes_options:
  "plugin_options (compoundIndexes mt) = plugin_options mt"
  "plugin_options (extendSchema mt) = plugin_options mt"
  "plugin_options (injectApi mt) = plugin_options mt"
  by (simp_all add: compoundIndexes_def extendSchema_def injectApi_def Let_def)


lemma s_pre_apply_plugin:
  "s_pre (schema (apply_plugin mt)) =
     s_pre (schema mt) @
       [(''find'', QueryHook (preFindOrCount (getTenantIdKey mt))),
        (''findOne'', QueryHook (preFindOrCount (getTenantIdKey mt))),
        (''findOneAndRemove'', QueryHook (preFindOrCount (getTenantIdKey mt))),
        (''count'', QueryHook (preFindOrCount (getTenantIdKey mt))),
        (''countDocuments'', QueryHook (preFindOrCount (getTenantIdKey mt))),
        (''findOneAndUpdate'', QueryHook (preUpdate (getTenantIdKey mt))),
        (''update'', QueryHook (preUpdate (getTenantIdKey mt))),
        (''updateMany'', QueryHook (preUpdate (getTenantIdKey mt))),
        (''save'', DocumentHook (preSave (getTenantIdKey mt)))]"
proof -
  have key: "getTenantIdKey (injectApi (compoundIndexes (extendSchema mt))) = getTenantIdKey mt"
    by (simp add: getTenantIdKey_def compoundIndexes_options)
  have pre: "s_pre (schema (injectApi (compoundIndexes (extendSchema mt)))) = s_pre (schema mt)"
    by (simp add: injectApi_def schema_static_def s_pre_compoundIndexes extendSchema_simps)
  show ?thesis
    unfolding apply_plugin_def
    by (simp only: s_pre_installMiddleWare key pre)
qed








section \<open>Properties of the accessor\<close>







section \<open>Aggregation through a bound model\<close>

text \<open>
  Claim C3, as the code has it. \<open>aggregate\<close> (line 50) is declared without
  \<open>static\<close>, so it is a method of the instances. A call of \<open>aggregate\<close> on a model
  class, bound or not, runs the static of the host with the arguments of the caller: no
  stage is added, no filter is changed and nothing is written. For the class that
  \<open>byTenant("t1")\<close> returns: a call without a pipeline hands the host no pipeline, and
  the pipeline \<open>[{$match: {status: "active"}}]\<close> and the empty pipeline arrive as
  the caller made them.
\<close>

theorem aggregate_reaches_host_unscoped:
  "class_aggregate m h args = Inr (h, ToHostStatic ''aggregate'' args) \<and>
   fst (accessor (mongoTenantPlugin users_schema no_options) User (JStr ''t1'') ''t1'') =
     ReturnsModel (bound_user 0 (JStr ''t1'')) \<and>
   class_aggregate (bound_user 0 (JStr ''t1'')) [] [] = Inr ([], ToHostStatic ''aggregate'' []) \<and>
   class_aggregate (bound_user 0 (JStr ''t1''))
     [Arr [Ref 1] [], Obj [(''$match'', Ref 2)], Obj [(''status'', JStr ''active'')]] [Ref 0] =
     Inr ([Arr [Ref 1] [], Obj [(''$match'', Ref 2)], Obj [(''status'', JStr ''active'')]],
          ToHostStatic ''aggregate'' [Ref 0]) \<and>
   class_aggregate (bound_user 0 (JStr ''t1'')) [Arr [] []] [Ref 0] =
     Inr ([Arr [] []], ToHostStatic ''aggregate'' [Ref 0])"
proof -
  have made: "fst (accessor (mongoTenantPlugin users_schema no_options) User (JStr ''t1'') ''t1'') =
     ReturnsModel (bound_user 0 (JStr ''t1''))"
    by code_simp
  show ?thesis
    using made by (simp add: class_aggregate_def class_call_host)
qed

section \<open>Delete operations through a bound model\<close>

text \<open>
  Claim C4, as the code has it. \<open>deleteOne\<close>, \<open>deleteMany\<close> and \<open>remove\<close> (lines 68,
  86 and 104) are declared without \<open>static\<close>. A call of one of them on a model class,
  bound or not, runs the static of the host with the arguments of the caller and writes
  nothing. For the class that \<open>byTenant("t1")\<close> returns: \<open>deleteMany()\<close> hands the
  host no filter, a callback given in the place of the filter stays the first argument,
  and the filter \<open>{tenant: "t2"}\<close> keeps the value of the caller.
\<close>

theorem delete_ops_reach_host_unscoped:
  "class_deleteOne m h args = Inr (h, ToHostStatic ''deleteOne'' args) \<and>
   class_deleteMany m h args = Inr (h, ToHostStatic ''deleteMany'' args) \<and>
   class_remove m h args = Inr (h, ToHostStatic ''remove'' args) \<and>
   fst (accessor (mongoTenantPlugin users_schema no_options) User (JStr ''t1'') ''t1'') =
     ReturnsModel (bound_user 0 (JStr ''t1'')) \<and>
   class_deleteMany (bound_user 0 (JStr ''t1'')) [] [] = Inr ([], ToHostStatic ''deleteMany'' []) \<and>
   class_deleteOne (bound_user 0 (JStr ''t1'')) [] [JFun ''callback''] =
     Inr ([], ToHostStatic ''deleteOne'' [JFun ''callback'']) \<and>
   class_remove (bound_user 0 (JStr ''t1'')) [Obj [(''tenant'', JStr ''t2'')]] [Ref 0] =
     Inr ([Obj [(''tenant'', JStr ''t2'')]], ToHostStatic ''remove'' [Ref 0])"
proof -
  have made: "fst (accessor (mongoTenantPlugin users_schema no_options) User (JStr ''t1'') ''t1'') =
     ReturnsModel (bound_user 0 (JStr ''t1''))"
    by code_simp
  show ?thesis
    using made
    by (simp add: class_deleteOne_def class_deleteMany_def class_remove_def class_call_host)
qed

section \<open>Bulk insert through a bound model\<close>

text \<open>
  Claim C5, as the code has it. \<open>insertMany\<close> (line 122) is declared without
  \<open>static\<close>. A call of \<open>insertMany\<close> on a model class, bound or not, runs the static
  of the host with the arguments of the caller, and no document is written to before
  that. For the class that \<open>byTenant("t1")\<close> returns: the documents of the array
  \<open>[{name: "a"}, {name: "b", tenant: "t2"}]\<close> and the single document \<open>{name: "c"}\<close>
  are stored as the caller made them, without the tenant field or with the value of the
  caller.
\<close>

theorem insertMany_reaches_host_unscoped:
  "class_insertMany m h args = Inr (h, ToHostStatic ''insertMany'' args) \<and>
   fst (accessor (mongoTenantPlugin users_schema no_options) User (JStr ''t1'') ''t1'') =
     ReturnsModel (bound_user 0 (JStr ''t1'')) \<and>
   insertMany_through (bound_user 0 (JStr ''t1''))
     [Arr [Ref 1, Ref 2] [], Obj [(''name'', JStr ''a'')],
      Obj [(''name'', JStr ''b''), (''tenant'', JStr ''t2'')]]
     [Ref 0, Undefined, JFun ''callback''] [] =
     Inr [[(''name'', JStr ''a'')], [(''name'', JStr ''b''), (''tenant'', JStr ''t2'')]] \<and>
   insertMany_through (bound_user 0 (JStr ''t1'')) [Obj [(''name'', JStr ''c'')]] [Ref 0] [] =
     Inr [[(''name'', JStr ''c'')]]"
proof -
  have made: "fst (accessor (mongoTenantPlugin users_schema no_options) User (JStr ''t1'') ''t1'') =
     ReturnsModel (bound_user 0 (JStr ''t1''))"
    by code_simp
  have many: "stored_docs
     [Arr [Ref 1, Ref 2] [], Obj [(''name'', JStr ''a'')],
      Obj [(''name'', JStr ''b''), (''tenant'', JStr ''t2'')]] (Ref 0) =
     Some [[(''name'', JStr ''a'')], [(''name'', JStr ''b''), (''tenant'', JStr ''t2'')]]"
    by code_simp
  have one: "stored_docs [Obj [(''name'', JStr ''c'')]] (Ref 0) = Some [[(''name'', JStr ''c'')]]"
    by code_simp
  show ?thesis
    using made many one
    by (simp add: insertMany_through_def class_insertMany_def class_call_host first_arg_def
        default_to_simps)
qed

text \<open>
  Claim C10, as the code has it. The call of \<open>insertMany\<close> on a model class, bound or
  not, is the call of the static of the host, and the options of the caller are its
  second argument and the callback of the caller its third. For the class that
  \<open>byTenant("t1")\<close> returns, the options \<open>{ordered: false}\<close> reach the host.
\<close>

theorem insertMany_options_reach_host:
  "(case class_insertMany m h [docs, opts, callback] of
      Inr (h', ToHostStatic name args) \<Rightarrow>
        h' = h \<and> name = ''insertMany'' \<and> arg args 0 = docs \<and> arg args 1 = opts \<and>
        arg args 2 = callback
    | _ \<Rightarrow> False) \<and>
   (case class_insertMany (bound_user 0 (JStr ''t1''))
           [Arr [Ref 1] [], Obj [(''name'', JStr ''a'')], Obj [(''ordered'', JBool False)]]
           [Ref 0, Ref 2, JFun ''callback''] of
      Inr (h', ToHostStatic name args) \<Rightarrow>
        arg args 1 = Ref 2 \<and> lookup h' 2 = Some (Obj [(''ordered'', JBool False)])
    | _ \<Rightarrow> False)"
  by (simp add: class_insertMany_def class_call_host arg_def lookup_def)

section \<open>Compatibility of two plugins\<close>

text \<open>
  Claim C7. \<open>isCompatibleTo\<close> answers true exactly when its argument is present, has
  both \<open>getAccessorMethod\<close> and \<open>getTenantIdKey\<close> as functions, and reports the
  tenant field name of this plugin. For a plugin instance as the argument the answer
  is whether the two tenant field names are equal: true for two plugins with the
  default field name, false when one of them is configured with another name.
\<close>

theorem isCompatibleTo_iff:
  "isCompatibleTo mt plugin =
     (\<exists>p a. plugin = Some p \<and> member_getAccessorMethod p = Some a \<and>
            member_getTenantIdKey p = Some (JStr (getTenantIdKey mt))) \<and>
   isCompatibleTo mt (Some (as_value other)) = (getTenantIdKey mt = getTenantIdKey other) \<and>
   isCompatibleTo (new_MongoTenant sch1 given1)
     (Some (as_value (new_MongoTenant sch2 (given2\<lparr>g_tenantIdKey := None\<rparr>)))) =
     (g_tenantIdKey given1 = None \<or> g_tenantIdKey given1 = Some ''tenant'') \<and>
   \<not> isCompatibleTo (new_MongoTenant sch1 (given1\<lparr>g_tenantIdKey := None\<rparr>))
     (Some (as_value (new_MongoTenant sch2 (given2\<lparr>g_tenantIdKey := Some ''organisation''\<rparr>))))"
proof (intro conjI)
  show "isCompatibleTo mt plugin =
     (\<exists>p a. plugin = Some p \<and> member_getAccessorMethod p = Some a \<and>
            member_getTenantIdKey p = Some (JStr (getTenantIdKey mt)))"
    by (auto simp: isCompatibleTo_def split: option.splits)
  show "isCompatibleTo mt (Some (as_value other)) = (getTenantIdKey mt = getTenantIdKey other)"
    by (simp add: isCompatibleTo_def as_value_def)
  show "isCompatibleTo (new_MongoTenant sch1 given1)
     (Some (as_value (new_MongoTenant sch2 (given2\<lparr>g_tenantIdKey := None\<rparr>)))) =
     (g_tenantIdKey given1 = None \<or> g_tenantIdKey given1 = Some ''tenant'')"
    by (cases "g_tenantIdKey given1")
      (simp_all add: isCompatibleTo_def as_value_def new_MongoTenant_def getTenantIdKey_def
        default_to_def)
  show "\<not> isCompatibleTo (new_MongoTenant sch1 (given1\<lparr>g_tenantIdKey := None\<rparr>))
     (Some (as_value (new_MongoTenant sch2 (given2\<lparr>g_tenantIdKey := Some ''organisation''\<rparr>))))"
    by (simp add: isCompatibleTo_def as_value_def new_MongoTenant_def getTenantIdKey_def
        default_to_def)
qed

section \<open>The pre-hooks\<close>

text \<open>
  Claim C8, as the code has it. The plugin registers the nine hooks behind those the
  schema has. A hook asks the model class for its static \<open>hasTenantContext\<close> (lines
  406, 418 and 431). The bound class declares \<open>hasTenantContext\<close> as a field of its
  instances (line 45) and \<open>getTenant\<close> as a method of its prototype (line 46): read
  on a bound class, the flag is what the base of the class has. So for a class that
  \<open>createTenantAwareModel\<close> makes from a model of the host that carries no such
  static, as for the class that \<open>byTenant("t1")\<close> returns, each of the three hook
  functions leaves the filter, the update and the document as they are and calls
  \<open>next\<close> once: the tenant is merged into nothing.
\<close>

theorem hooks_skip_bound_models:
  "s_pre (schema (mongoTenantPlugin sch given)) =
     s_pre sch @
       [(''find'', QueryHook (preFindOrCount (getTenantIdKey (new_MongoTenant sch given)))),
        (''findOne'', QueryHook (preFindOrCount (getTenantIdKey (new_MongoTenant sch given)))),
        (''findOneAndRemove'', QueryHook (preFindOrCount (getTenantIdKey (new_MongoTenant sch given)))),
        (''count'', QueryHook (preFindOrCount (getTenantIdKey (new_MongoTenant sch given)))),
        (''countDocuments'', QueryHook (preFindOrCount (getTenantIdKey (new_MongoTenant sch given)))),
        (''findOneAndUpdate'', QueryHook (preUpdate (getTenantIdKey (new_MongoTenant sch given)))),
        (''update'', QueryHook (preUpdate (getTenantIdKey (new_MongoTenant sch given)))),
        (''updateMany'', QueryHook (preUpdate (getTenantIdKey (new_MongoTenant sch given)))),
        (''save'', DocumentHook (preSave (getTenantIdKey (new_MongoTenant sch given))))] \<and>
   static_hasTenantContext (MongoTenantModel i b t k ds) = static_hasTenantContext b \<and>
   static_hasTenantContext (fst (createTenantAwareModel k (BaseModel n ds' st) t c)) =
     st_hasTenantContext st \<and>
   preFindOrCount key
     \<lparr> q_model = fst (createTenantAwareModel k (BaseModel n ds' no_statics) t c),
       q_conditions = cond, q_update = u \<rparr> =
     Inr (\<lparr> q_model = fst (createTenantAwareModel k (BaseModel n ds' no_statics) t c),
            q_conditions = cond, q_update = u \<rparr>, 1) \<and>
   preUpdate key
     \<lparr> q_model = fst (createTenantAwareModel k (BaseModel n ds' no_statics) t c),
       q_conditions = cond, q_update = u \<rparr> =
     Inr (\<lparr> q_model = fst (createTenantAwareModel k (BaseModel n ds' no_statics) t c),
            q_conditions = cond, q_update = u \<rparr>, 1) \<and>
   preSave key
     \<lparr> d_constructor = fst (createTenantAwareModel k (BaseModel n ds' no_statics) t c),
       d_fields = d \<rparr> =
     Inr (\<lparr> d_constructor = fst (createTenantAwareModel k (BaseModel n ds' no_statics) t c),
            d_fields = d \<rparr>, 1) \<and>
   fst (accessor (mongoTenantPlugin users_schema no_options) User (JStr ''t1'') ''t1'') =
     ReturnsModel (bound_user 0 (JStr ''t1'')) \<and>
   preFindOrCount ''tenant''
     \<lparr> q_model = bound_user 0 (JStr ''t1''), q_conditions = [(''name'', JStr ''a'')],
       q_update = empty_update \<rparr> =
     Inr (\<lparr> q_model = bound_user 0 (JStr ''t1''), q_conditions = [(''name'', JStr ''a'')],
            q_update = empty_update \<rparr>, 1)"
proof -
  have reg: "s_pre (schema (mongoTenantPlugin sch given)) =
     s_pre sch @
       [(''find'', QueryHook (preFindOrCount (getTenantIdKey (new_MongoTenant sch given)))),
        (''findOne'', QueryHook (preFindOrCount (getTenantIdKey (new_MongoTenant sch given)))),
        (''findOneAndRemove'', QueryHook (preFindOrCount (getTenantIdKey (new_MongoTenant sch given)))),
        (''count'', QueryHook (preFindOrCount (getTenantIdKey (new_MongoTenant sch given)))),
        (''countDocuments'', QueryHook (preFindOrCount (getTenantIdKey (new_MongoTenant sch given)))),
        (''findOneAndUpdate'', QueryHook (preUpdate (getTenantIdKey (new_MongoTenant sch given)))),
        (''update'', QueryHook (preUpdate (getTenantIdKey (new_MongoTenant sch given)))),
        (''updateMany'', QueryHook (preUpdate (getTenantIdKey (new_MongoTenant sch given)))),
        (''save'', DocumentHook (preSave (getTenantIdKey (new_MongoTenant sch given))))]"
    unfolding mongoTenantPlugin_def
    by (simp only: s_pre_apply_plugin) (simp add: new_MongoTenant_def)
  have flag: "static_hasTenantContext (fst (createTenantAwareModel k (BaseModel n ds' st') t c)) =
      st_hasTenantContext st'" for st'
    using createTenantAwareModel_bound [of k "BaseModel n ds' st'" t c]
    by (auto simp: declares_static_never)
  have none: "\<not> truthy (static_hasTenantContext
      (fst (createTenantAwareModel k (BaseModel n ds' no_statics) t c)))"
    by (simp add: flag no_statics_def)
  have made: "fst (accessor (mongoTenantPlugin users_schema no_options) User (JStr ''t1'') ''t1'') =
     ReturnsModel (bound_user 0 (JStr ''t1''))"
    by code_simp
  have user: "\<not> truthy (static_hasTenantContext (bound_user 0 (JStr ''t1'')))"
    by (simp add: bound_user_def User_def no_statics_def declares_static_never)
  show ?thesis
    using reg flag none made user
    by (simp add: preFindOrCount_def preUpdate_def preSave_def declares_static_never)
qed

text \<open>
  The three hook functions by the static flag of the class they ask. Without a truthy
  static \<open>hasTenantContext\<close> a hook leaves the query or the document as it is and
  calls \<open>next\<close> once. On a class with a truthy flag and a function \<open>getTenant\<close> that
  returns \<open>t\<close>, the find and count hook sets the tenant field of the filter to \<open>t\<close>
  and keeps the other fields, the update hook does the same and puts the tenant under
  \<open>$set\<close> of the update, removing a top-level entry of that name, and the save hook
  sets the tenant field of the document; each calls \<open>next\<close> once. On a class with a
  truthy flag and no function \<open>getTenant\<close> the hook raises and \<open>next\<close> is not
  called.
\<close>

theorem hooks_on_flagged_class:
  "(\<not> truthy (static_hasTenantContext (q_model q)) \<longrightarrow>
      preFindOrCount key q = Inr (q, 1) \<and> preUpdate key q = Inr (q, 1)) \<and>
   (\<not> truthy (static_hasTenantContext (d_constructor d)) \<longrightarrow> preSave key d = Inr (d, 1)) \<and>
   (truthy (static_hasTenantContext (q_model q)) \<and> static_getTenant (q_model q) = Some t \<longrightarrow>
      preFindOrCount key q = Inr (q\<lparr>q_conditions := obj_set (q_conditions q) key t\<rparr>, 1) \<and>
      preUpdate key q =
        Inr (q\<lparr>q_conditions := obj_set (q_conditions q) key t,
               q_update :=
                 \<lparr> u_top = filter (\<lambda>p. fst p \<noteq> key) (u_top (q_update q)),
                   u_set = Some (obj_set (default_to [] (u_set (q_update q))) key t) \<rparr>\<rparr>, 1) \<and>
      obj_get (obj_set (q_conditions q) key t) key = t \<and>
      obj_get (obj_set (default_to [] (u_set (q_update q))) key t) key = t \<and>
      (\<forall>k'. k' \<noteq> key \<longrightarrow>
         obj_get (obj_set (q_conditions q) key t) k' = obj_get (q_conditions q) k')) \<and>
   (truthy (static_hasTenantContext (d_constructor d)) \<and>
    static_getTenant (d_constructor d) = Some t \<longrightarrow>
      preSave key d = Inr (d\<lparr>d_fields := obj_set (d_fields d) key t\<rparr>, 1) \<and>
      obj_get (obj_set (d_fields d) key t) key = t \<and>
      (\<forall>k'. k' \<noteq> key \<longrightarrow> obj_get (obj_set (d_fields d) key t) k' = obj_get (d_fields d) k')) \<and>
   (truthy (static_hasTenantContext (q_model q)) \<and> static_getTenant (q_model q) = None \<longrightarrow>
      preFindOrCount key q = Inl TypeError \<and> preUpdate key q = Inl TypeError) \<and>
   (truthy (static_hasTenantContext (d_constructor d)) \<and>
    static_getTenant (d_constructor d) = None \<longrightarrow>
      preSave key d = Inl TypeError)"
  by (simp add: preFindOrCount_def preUpdate_def preSave_def call_getTenant_def query_set_def
      document_set_def obj_get_obj_set_same obj_get_obj_set_other)

theorem hooks_on_flagged_class_witness:
  "truthy (static_hasTenantContext (flagged_user (JStr ''t1''))) \<and>
   static_getTenant (flagged_user (JStr ''t1'')) = Some (JStr ''t1'') \<and>
   preFindOrCount ''tenant''
     \<lparr> q_model = flagged_user (JStr ''t1''),
       q_conditions = [(''tenant'', JStr ''t2''), (''name'', JStr ''ann'')],
       q_update = empty_update \<rparr> =
     Inr (\<lparr> q_model = flagged_user (JStr ''t1''),
            q_conditions = [(''tenant'', JStr ''t1''), (''name'', JStr ''ann'')],
            q_update = empty_update \<rparr>, 1) \<and>
   preUpdate ''tenant''
     \<lparr> q_model = flagged_user (JStr ''t1''),
       q_conditions = [(''name'', JStr ''ann'')],
       q_update = \<lparr> u_top = [(''tenant'', JStr ''t2'')], u_set = Some [(''age'', JNum 3)] \<rparr> \<rparr> =
     Inr (\<lparr> q_model = flagged_user (JStr ''t1''),
            q_conditions = [(''name'', JStr ''ann''), (''tenant'', JStr ''t1'')],
            q_update = \<lparr> u_top = [],
                         u_set = Some [(''age'', JNum 3), (''tenant'', JStr ''t1'')] \<rparr> \<rparr>, 1) \<and>
   preSave ''tenant''
     \<lparr> d_constructor = flagged_user (JStr ''t1''),
       d_fields = [(''email'', JStr ''ann@example.org'')] \<rparr> =
     Inr (\<lparr> d_constructor = flagged_user (JStr ''t1''),
            d_fields = [(''email'', JStr ''ann@example.org''), (''tenant'', JStr ''t1'')] \<rparr>, 1) \<and>
   preFindOrCount ''tenant''
     \<lparr> q_model = User, q_conditions = [(''name'', JStr ''ann'')], q_update = empty_update \<rparr> =
     Inr (\<lparr> q_model = User, q_conditions = [(''name'', JStr ''ann'')],
            q_update = empty_update \<rparr>, 1) \<and>
   preSave ''tenant''
     \<lparr> d_constructor = BaseModel ''User'' None
         \<lparr> st_hasTenantContext = JBool True, st_getTenant = None \<rparr>,
       d_fields = [] \<rparr> = Inl TypeError"
proof -
  have flag: "truthy (static_hasTenantContext (flagged_user (JStr ''t1'')))"
    by code_simp
  have tenant: "static_getTenant (flagged_user (JStr ''t1'')) = Some (JStr ''t1'')"
    by code_simp
  have plain: "\<not> truthy (static_hasTenantContext User)"
    by code_simp
  have find_set: "obj_set [(''tenant'', JStr ''t2''), (''name'', JStr ''ann'')] ''tenant'' (JStr ''t1'') =
      [(''tenant'', JStr ''t1''), (''name'', JStr ''ann'')]"
    by code_simp
  have update_set: "obj_set [(''name'', JStr ''ann'')] ''tenant'' (JStr ''t1'') =
      [(''name'', JStr ''ann''), (''tenant'', JStr ''t1'')]"
    "obj_set [(''age'', JNum 3)] ''tenant'' (JStr ''t1'') =
      [(''age'', JNum 3), (''tenant'', JStr ''t1'')]"
    "obj_set [(''email'', JStr ''ann@example.org'')] ''tenant'' (JStr ''t1'') =
      [(''email'', JStr ''ann@example.org''), (''tenant'', JStr ''t1'')]"
    by code_simp+
  have one: "preFindOrCount ''tenant''
     \<lparr> q_model = flagged_user (JStr ''t1''),
       q_conditions = [(''tenant'', JStr ''t2''), (''name'', JStr ''ann'')],
       q_update = empty_update \<rparr> =
     Inr (\<lparr> q_model = flagged_user (JStr ''t1''),
            q_conditions = [(''tenant'', JStr ''t1''), (''name'', JStr ''ann'')],
            q_update = empty_update \<rparr>, 1)"
    using hooks_on_flagged_class [where key = "''tenant''" and t = "JStr ''t1''"
      and q = "\<lparr> q_model = flagged_user (JStr ''t1''),
       q_conditions = [(''tenant'', JStr ''t2''), (''name'', JStr ''ann'')],
       q_update = empty_update \<rparr>"] flag tenant
    by (simp add: find_set)
  have two: "preUpdate ''tenant''
     \<lparr> q_model = flagged_user (JStr ''t1''),
       q_conditions = [(''name'', JStr ''ann'')],
       q_update = \<lparr> u_top = [(''tenant'', JStr ''t2'')], u_set = Some [(''age'', JNum 3)] \<rparr> \<rparr> =
     Inr (\<lparr> q_model = flagged_user (JStr ''t1''),
            q_conditions = [(''name'', JStr ''ann''), (''tenant'', JStr ''t1'')],
            q_update = \<lparr> u_top = [],
                         u_set = Some [(''age'', JNum 3), (''tenant'', JStr ''t1'')] \<rparr> \<rparr>, 1)"
    using hooks_on_flagged_class [where key = "''tenant''" and t = "JStr ''t1''"
      and q = "\<lparr> q_model = flagged_user (JStr ''t1''),
       q_conditions = [(''name'', JStr ''ann'')],
       q_update = \<lparr> u_top = [(''tenant'', JStr ''t2'')], u_set = Some [(''age'', JNum 3)] \<rparr> \<rparr>"]
      flag tenant
    by (simp add: update_set default_to_simps)
  have three: "preSave ''tenant''
     \<lparr> d_constructor = flagged_user (JStr ''t1''),
       d_fields = [(''email'', JStr ''ann@example.org'')] \<rparr> =
     Inr (\<lparr> d_constructor = flagged_user (JStr ''t1''),
            d_fields = [(''email'', JStr ''ann@example.org''), (''tenant'', JStr ''t1'')] \<rparr>, 1)"
    using hooks_on_flagged_class [where key = "''tenant''" and t = "JStr ''t1''"
      and d = "\<lparr> d_constructor = flagged_user (JStr ''t1''),
       d_fields = [(''email'', JStr ''ann@example.org'')] \<rparr>"] flag tenant
    by (simp add: update_set)
  have four: "preFindOrCount ''tenant''
     \<lparr> q_model = User, q_conditions = [(''name'', JStr ''ann'')], q_update = empty_update \<rparr> =
     Inr (\<lparr> q_model = User, q_conditions = [(''name'', JStr ''ann'')],
            q_update = empty_update \<rparr>, 1)"
    using hooks_on_flagged_class [where key = "''tenant''"
      and q = "\<lparr> q_model = User, q_conditions = [(''name'', JStr ''ann'')],
        q_update = empty_update \<rparr>"] plain
    by simp
  have five: "preSave ''tenant''
     \<lparr> d_constructor = BaseModel ''User'' None
         \<lparr> st_hasTenantContext = JBool True, st_getTenant = None \<rparr>,
       d_fields = [] \<rparr> = Inl TypeError"
    using hooks_on_flagged_class [where key = "''tenant''"
      and d = "\<lparr> d_constructor = BaseModel ''User'' None
         \<lparr> st_hasTenantContext = JBool True, st_getTenant = None \<rparr>, d_fields = [] \<rparr>"]
    by simp
  from flag tenant one two three four five show ?thesis
    by blast
qed

section \<open>Unique indexes after the setup\<close>




section \<open>Field-level unique constraints\<close>

text \<open>
  Claim C2, as the code has it, on the schema whose \<open>email\<close> path is declared unique,
  with the default options. After the setup the host lists three indexes: the unique
  index on \<open>email\<close> alone, which the path still declares, the index on the tenant
  field, and the compound unique index that the plugin adds. A document saved through
  the class of \<open>t1\<close> is stored without a tenant field, and the same email through the
  class of \<open>t2\<close> is refused. Documents to which the caller gives the tenant fields
  \<open>t1\<close> and \<open>t2\<close> fare the same: the compound index alone would accept the second,
  the index on \<open>email\<close> alone refuses it.
\<close>

theorem field_level_unique_stays_global:
  "fst (schema_indexes (schema (mongoTenantPlugin users_schema no_options))) =
     [([(''email'', JNum 1)], [(''unique'', JBool True), (''background'', JBool True)]),
      ([(''tenant'', JNum 1)], [(''background'', JBool True)]),
      ([(''tenant'', JNum 1), (''email'', JNum 1)],
       [(''type'', JFun ''String''), (''unique'', JBool True), (''background'', JBool True)])] \<and>
   save_through ''tenant'' (bound_user 0 (JStr ''t1'')) [(''email'', JStr ''ann@example.org'')] [] =
     Inr [[(''email'', JStr ''ann@example.org'')]] \<and>
   preSave ''tenant''
     \<lparr> d_constructor = bound_user 1 (JStr ''t2''),
       d_fields = [(''email'', JStr ''ann@example.org'')] \<rparr> =
     Inr (\<lparr> d_constructor = bound_user 1 (JStr ''t2''),
            d_fields = [(''email'', JStr ''ann@example.org'')] \<rparr>, 1) \<and>
   save_accepted (fst (schema_indexes (schema (mongoTenantPlugin users_schema no_options))))
     [[(''email'', JStr ''ann@example.org'')]] [(''email'', JStr ''ann@example.org'')] = False \<and>
   save_accepted (fst (schema_indexes (schema (mongoTenantPlugin users_schema no_options))))
     [[(''email'', JStr ''ann@example.org''), (''tenant'', JStr ''t1'')]]
     [(''email'', JStr ''ann@example.org''), (''tenant'', JStr ''t2'')] = False \<and>
   refused_by ([(''email'', JNum 1)], [(''unique'', JBool True), (''background'', JBool True)])
     [[(''email'', JStr ''ann@example.org''), (''tenant'', JStr ''t1'')]]
     [(''email'', JStr ''ann@example.org''), (''tenant'', JStr ''t2'')] \<and>
   save_accepted
     [([(''tenant'', JNum 1), (''email'', JNum 1)],
       [(''type'', JFun ''String''), (''unique'', JBool True), (''background'', JBool True)])]
     [[(''email'', JStr ''ann@example.org''), (''tenant'', JStr ''t1'')]]
     [(''email'', JStr ''ann@example.org''), (''tenant'', JStr ''t2'')]"
  by code_simp

section \<open>The accessor and its cache\<close>




section \<open>Isolation of tenants\<close>

text \<open>
  Claim C1, as the code has it, for the tenants \<open>t1\<close> and \<open>t2\<close> on the schema of
  users with the default options. The accessor returns two classes. A document saved
  through the class of \<open>t1\<close> is stored without a tenant field, and so are the
  documents that \<open>insertMany\<close> on that class stores; \<open>find({})\<close> through the class of
  \<open>t2\<close> returns them all, and \<open>aggregate\<close> on that class hands the pipeline of the
  caller to the host as it is.
\<close>

theorem tenant_isolation_fails:
  "getTenantIdKey (mongoTenantPlugin users_schema no_options) = ''tenant'' \<and>
   fst (accessor (mongoTenantPlugin users_schema no_options) User (JStr ''t1'') ''t1'') =
     ReturnsModel (bound_user 0 (JStr ''t1'')) \<and>
   fst (accessor
          (snd (accessor (mongoTenantPlugin users_schema no_options) User (JStr ''t1'') ''t1''))
          User (JStr ''t2'') ''t2'') =
     ReturnsModel (bound_user 1 (JStr ''t2'')) \<and>
   save_through ''tenant'' (bound_user 0 (JStr ''t1'')) [(''email'', JStr ''ann@example.org'')] [] =
     Inr [[(''email'', JStr ''ann@example.org'')]] \<and>
   insertMany_through (bound_user 0 (JStr ''t1''))
     [Arr [Ref 1] [], Obj [(''email'', JStr ''bob@example.org'')]] [Ref 0]
     [[(''email'', JStr ''ann@example.org'')]] =
     Inr [[(''email'', JStr ''ann@example.org'')], [(''email'', JStr ''bob@example.org'')]] \<and>
   find_through ''tenant'' (bound_user 1 (JStr ''t2'')) []
     [[(''email'', JStr ''ann@example.org'')], [(''email'', JStr ''bob@example.org'')]] =
     Inr [[(''email'', JStr ''ann@example.org'')], [(''email'', JStr ''bob@example.org'')]] \<and>
   class_aggregate (bound_user 1 (JStr ''t2'')) [Arr [] []] [Ref 0] =
     Inr ([Arr [] []], ToHostStatic ''aggregate'' [Ref 0])"
  by code_simp

end
